theory Spec2Isabelle
  imports Complex_Main "HOL-Library.Sublist"
begin

section \<open>Conventions of the embedding\<close>

text \<open>
  The calculation engine of the repository is written in Python over floating-point
  numbers. The embedding uses \<^typ>\<open>real\<close> for every number, so arithmetic is exact:
  rounding, overflow, infinities and NaN are outside the model. Everything else is kept:
  every \<^verbatim>\<open>raise\<close> of the interpreter that a function of the engine can reach is a
  value \<open>Inl e\<close> of the result type \<open>error + 'a\<close>, a dictionary is an association
  list in insertion order (keys distinct), \<^verbatim>\<open>None\<close> is \<open>None\<close>. The interpolators and
  the root finder of scipy are not code of the repository: each function that calls one
  takes it as a parameter, and what is proved holds for every such parameter.
\<close>

datatype error =
    ZeroDivisionError
  | ValueError
  | KeyError
  | IndexError
  | TypeError
  | AttributeError
  | UnboundLocalError

text \<open>Sequencing of two steps, the first of which may raise.\<close>

definition bnd :: "error + 'a \<Rightarrow> ('a \<Rightarrow> error + 'b) \<Rightarrow> error + 'b" where
  "bnd m f = (case m of Inl e \<Rightarrow> Inl e | Inr v \<Rightarrow> f v)"

text \<open>\<^verbatim>\<open>a / b\<close> on Python numbers raises when the divisor is zero.\<close>

definition py_div :: "real \<Rightarrow> real \<Rightarrow> error + real" where
  "py_div a b = (if b = 0 then Inl ZeroDivisionError else Inr (a / b))"

text \<open>\<^verbatim>\<open>math.degrees\<close>, \<^verbatim>\<open>math.acos\<close> (a domain error outside \<open>[-1, 1]\<close>) and
  \<^verbatim>\<open>math.sqrt\<close> (a domain error below zero).\<close>

definition degrees :: "real \<Rightarrow> real" where
  "degrees r = r * 180 / pi"

definition py_acos :: "real \<Rightarrow> error + real" where
  "py_acos c = (if c < -1 \<or> 1 < c then Inl ValueError else Inr (arccos c))"


text \<open>\<^verbatim>\<open>xs.index(v)\<close>: the position of the first occurrence; \<^verbatim>\<open>max(xs)\<close>,
  \<^verbatim>\<open>min(xs)\<close> and \<^verbatim>\<open>xs[-1]\<close>, \<^verbatim>\<open>xs[0]\<close>, which raise on an empty list.\<close>

fun index_of :: "'a list \<Rightarrow> 'a \<Rightarrow> error + nat" where
  "index_of [] v = Inl ValueError"
| "index_of (x # xs) v = (if x = v then Inr 0 else bnd (index_of xs v) (\<lambda>i. Inr (Suc i)))"



definition py_last :: "'a list \<Rightarrow> error + 'a" where
  "py_last xs = (if xs = [] then Inl IndexError else Inr (last xs))"


definition py_nth :: "'a list \<Rightarrow> nat \<Rightarrow> error + 'a" where
  "py_nth xs i = (if i < length xs then Inr (xs ! i) else Inl IndexError)"

text \<open>
  \<^verbatim>\<open>str.replace(old, "")\<close> for a non-empty \<open>old\<close>: every occurrence, found from the left
  and without overlap, is dropped.
\<close>

function remove_substr :: "string \<Rightarrow> string \<Rightarrow> string" where
  "remove_substr old [] = []"
| "remove_substr old (c # cs) =
     (if old \<noteq> [] \<and> prefix old (c # cs)
      then remove_substr old (drop (length old) (c # cs))
      else c # remove_substr old cs)"
  by pat_completeness auto
termination
  by (relation "measure (\<lambda>(old, s). length s)") auto

section \<open>Crane lift and safe working load (crane.py)\<close>

subsection \<open>calculate\_slew\_angle\<close>


subsection \<open>calculate\_boom\_angle\<close>

text \<open>The function returns either one of four messages or the angle as a number.\<close>

datatype boom_angle = Message string | Angle real

definition calculate_boom_angle :: "real \<Rightarrow> real \<Rightarrow> real \<Rightarrow> real \<Rightarrow> error + boom_angle" where
  "calculate_boom_angle boom_length required_outreach Ucl Ucr =
     (if Ucr > 1 \<and> Ucl > 1 then Inr (Message ''Lift is beyond crane capacity and max radius!'')
      else if Ucl > 1 then Inr (Message ''Lift is beyond crane capacity!'')
      else if Ucr > 1 then Inr (Message ''Lift is beyond max radius!'')
      else bnd (py_div required_outreach boom_length) (\<lambda>ratio.
           bnd (py_acos ratio) (\<lambda>boom_angle.
             let boom_angle_deg = degrees boom_angle
             in if boom_angle_deg > 75 then Inr (Message ''Cargo inside minimum outreach!'')
                else Inr (Angle boom_angle_deg))))"

subsection \<open>calculate\_required\_swl\<close>







subsection \<open>get\_swl\_table\<close>






subsection \<open>calculate\_crane\_and\_swl\<close>









section \<open>Weights and floating status (helpers.py)\<close>

text \<open>
  A Python dictionary with string keys is an association list; reading a missing key
  raises. \<^verbatim>\<open>round(v, n)\<close> rounds to \<open>n\<close> decimals, a tie going to the even neighbour.
\<close>

definition dict_get :: "(string \<times> 'a) list \<Rightarrow> string \<Rightarrow> error + 'a" where
  "dict_get d k = (case map_of d k of None \<Rightarrow> Inl KeyError | Some v \<Rightarrow> Inr v)"

fun map_err :: "('a \<Rightarrow> error + 'b) \<Rightarrow> 'a list \<Rightarrow> error + 'b list" where
  "map_err f [] = Inr []"
| "map_err f (x # xs) = bnd (f x) (\<lambda>v. bnd (map_err f xs) (\<lambda>vs. Inr (v # vs)))"

definition py_round :: "real \<Rightarrow> nat \<Rightarrow> real" where
  "py_round v ndigits =
     (let s = v * 10 ^ ndigits;
          f = \<lfloor>s\<rfloor>;
          r = (if s - of_int f < 1 / 2 then f
               else if s - of_int f > 1 / 2 then f + 1
               else if even f then f else f + 1)
      in of_int r / 10 ^ ndigits)"

subsection \<open>get\_fixed\_weight\<close>

fun fixed_weight_loop ::
  "(string \<times> real) list list \<Rightarrow> real \<times> real \<times> real \<times> real \<Rightarrow> error + (real \<times> real \<times> real \<times> real)" where
  "fixed_weight_loop [] acc = Inr acc"
| "fixed_weight_loop (fixed_weight # rest) (weight, lcg, tcg, vcg) =
     bnd (dict_get fixed_weight ''weight'') (\<lambda>w.
     bnd (dict_get fixed_weight ''lcg'') (\<lambda>l.
     bnd (dict_get fixed_weight ''tcg'') (\<lambda>t.
     bnd (dict_get fixed_weight ''vcg'') (\<lambda>v.
       fixed_weight_loop rest (weight + w, lcg + w * l, tcg + w * t, vcg + w * v)))))"

definition get_fixed_weight ::
  "(string \<times> real) list list \<Rightarrow> error + (real \<times> real \<times> real \<times> real)" where
  "get_fixed_weight weight_data =
     bnd (fixed_weight_loop weight_data (0, 0, 0, 0)) (\<lambda>(weight, lcg, tcg, vcg).
       if weight \<noteq> 0
       then Inr (py_round weight 4, lcg / weight, tcg / weight, vcg / weight)
       else Inr (py_round weight 4, lcg, tcg, vcg))"

subsection \<open>get\_tank\_weight\<close>

text \<open>
  \<^verbatim>\<open>ship["Tanks"]\<close> maps a file name to the table of a tank, a dictionary of columns.
  \<^verbatim>\<open>scipy.interpolate.interp1d\<close> is a parameter: given the two columns it either raises
  or gives the interpolant, whose call raises outside the tabulated fill range.
\<close>

type_synonym dataframe = "(string \<times> real list) list"

type_synonym interp1d_raising = "real list \<Rightarrow> real list \<Rightarrow> error + (real \<Rightarrow> error + real)"

record tank_val =
  tank_props :: "(string \<times> real) list"
  tank_name :: string
  fill_percent :: real

definition tank_properties :: "string list" where
  "tank_properties = [''volume'', ''weight'', ''lcg'', ''tcg'', ''vcg'', ''fsm'']"

definition tank_entry ::
  "interp1d_raising \<Rightarrow> (string \<times> real) list \<Rightarrow> string \<Rightarrow> dataframe \<Rightarrow> error + tank_val" where
  "tank_entry interp1d tank_data tank table =
     bnd (map_err (\<lambda>prop. bnd (dict_get table ''fill percent'') (\<lambda>fp.
                           bnd (dict_get table prop) (\<lambda>col. interp1d fp col)))
            tank_properties) (\<lambda>ip_data.
       let nm = remove_substr ''.csv'' tank;
           fill = (case map_of tank_data nm of None \<Rightarrow> 0 | Some p \<Rightarrow> p)
       in bnd (map_err (\<lambda>(param, val). bnd (val fill) (\<lambda>v. Inr (param, v)))
                 (zip tank_properties ip_data)) (\<lambda>tank_dict.
            Inr \<lparr>tank_props = tank_dict, tank_name = nm, fill_percent = fill\<rparr>))"

text \<open>Lines 47 to 60: the totals over the entries built by the loop.\<close>

definition tank_totals :: "tank_val list \<Rightarrow> error + (real \<times> real \<times> real \<times> real \<times> real)" where
  "tank_totals tank_vals =
     bnd (map_err (\<lambda>tank. dict_get (tank_props tank) ''weight'') tank_vals) (\<lambda>ws.
       let weight = sum_list ws
       in if weight = 0 then Inr (0, 0, 0, 0, 0)
          else
            bnd (map_err (\<lambda>tank. bnd (dict_get (tank_props tank) ''lcg'') (\<lambda>c.
                                  bnd (dict_get (tank_props tank) ''weight'') (\<lambda>w. Inr (c * w))))
                   tank_vals) (\<lambda>ls.
            bnd (map_err (\<lambda>tank. bnd (dict_get (tank_props tank) ''tcg'') (\<lambda>c.
                                  bnd (dict_get (tank_props tank) ''weight'') (\<lambda>w. Inr (c * w))))
                   tank_vals) (\<lambda>ts.
            bnd (map_err (\<lambda>tank. bnd (dict_get (tank_props tank) ''vcg'') (\<lambda>c.
                                  bnd (dict_get (tank_props tank) ''weight'') (\<lambda>w. Inr (c * w))))
                   tank_vals) (\<lambda>vs.
            bnd (map_err (\<lambda>tank. dict_get (tank_props tank) ''fsm'') tank_vals) (\<lambda>fs.
              Inr (weight, sum_list ls / weight, sum_list ts / weight, sum_list vs / weight,
                   sum_list fs))))))"

definition get_tank_weight ::
  "interp1d_raising \<Rightarrow> (string \<times> dataframe) list \<Rightarrow> (string \<times> real) list
     \<Rightarrow> error + (tank_val list \<times> (real \<times> real \<times> real \<times> real \<times> real))" where
  "get_tank_weight interp1d tanks tank_data =
     bnd (map_err (\<lambda>(tank, table). tank_entry interp1d tank_data tank table)
            (filter (\<lambda>(tank, table). suffix ''.csv'' tank) tanks)) (\<lambda>tank_vals.
     bnd (tank_totals tank_vals) (\<lambda>totals. Inr (tank_vals, totals)))"

subsection \<open>optimize\_trim\<close>

text \<open>
  \<^verbatim>\<open>ship["Hydrostatics"]\<close> maps a file name to a sheet; the sheet of the file \<^verbatim>\<open>t.csv\<close>
  is kept under the number \<open>t\<close> that the key function \<^verbatim>\<open>float(x[:-4])\<close> reads from the
  name. \<^verbatim>\<open>scipy.interpolate.RegularGridInterpolator\<close> is a parameter: given the two axes
  and the grid it either raises or gives the interpolant, which extrapolates
  (\<^verbatim>\<open>bounds_error=False, fill_value=None\<close>) and so is defined on every point.

  The interpolators are built over \<^verbatim>\<open>zip(weight_data, params)\<close>: the \<open>i\<close>-th parameter
  gets the weight column of the \<open>i\<close>-th sheet, and a table with fewer sheets than
  parameters gives interpolators for the first parameters only.
\<close>

type_synonym grid_interpolator =
  "real list \<Rightarrow> real list \<Rightarrow> real list list \<Rightarrow> error + (real \<Rightarrow> real \<Rightarrow> real)"

definition params :: "string list" where
  "params = [''draft'', ''lcb'', ''vcb'', ''lcf'', ''kml'', ''kmt'', ''mct'', ''tpc'']"

fun dict_set :: "(string \<times> 'a) list \<Rightarrow> string \<Rightarrow> 'a \<Rightarrow> (string \<times> 'a) list" where
  "dict_set [] k v = [(k, v)]"
| "dict_set ((k', v') # d) k v = (if k' = k then (k, v) # d else (k', v') # dict_set d k v)"

definition list_interp_func ::
  "grid_interpolator \<Rightarrow> (real \<times> dataframe) list \<Rightarrow> error + (real \<Rightarrow> real \<Rightarrow> real) list" where
  "list_interp_func rgi hs =
     (let trim_data = sort_key fst hs;
          trim_vals = map fst trim_data
      in bnd (map_err (\<lambda>param.
                 bnd (map_err (\<lambda>(t, sheet). dict_get sheet param) trim_data)
                   (\<lambda>cols. Inr (param, cols))) params) (\<lambda>param_data.
         bnd (map_err (\<lambda>(t, sheet). dict_get sheet ''weight'') trim_data) (\<lambda>weight_data.
           map_err (\<lambda>(weight_vals, param).
                      bnd (dict_get param_data param) (\<lambda>grid. rgi trim_vals weight_vals grid))
             (zip weight_data params))))"

definition evaluate_params ::
  "(real \<Rightarrow> real \<Rightarrow> real) list \<Rightarrow> real \<Rightarrow> real \<Rightarrow> (string \<times> real) list" where
  "evaluate_params fs trim_meter weight =
     map (\<lambda>(param, param_val). (param, param_val trim_meter weight)) (zip params fs)"

definition optimize_trim ::
  "grid_interpolator \<Rightarrow> (real \<times> dataframe) list \<Rightarrow> real \<Rightarrow> real \<Rightarrow> real \<Rightarrow> real \<Rightarrow> real \<Rightarrow> real
     \<Rightarrow> error + (string \<times> real) list" where
  "optimize_trim rgi hs weight lcg tcg vcg vcg_corr length' =
     bnd (list_interp_func rgi hs) (\<lambda>fs.
       let floating_status = evaluate_params fs 0 weight
       in bnd (dict_get floating_status ''lcb'') (\<lambda>lcb.
          bnd (dict_get floating_status ''mct'') (\<lambda>mct.
          bnd (py_div (weight * (lcb - lcg)) (mct * 100)) (\<lambda>trim_meter.
            let floating_status = evaluate_params fs trim_meter weight
            in bnd (py_div trim_meter length') (\<lambda>q.
                 let trim_deg = degrees (arctan q)
                 in bnd (dict_get floating_status ''draft'') (\<lambda>draft.
                    let floating_status = dict_set floating_status ''draft_aft'' (draft + trim_meter / 2)
                    in bnd (dict_get floating_status ''draft'') (\<lambda>draft.
                       let floating_status =
                             dict_set floating_status ''draft_fwd'' (draft - trim_meter / 2);
                           floating_status = dict_set floating_status ''trim'' trim_deg
                       in bnd (dict_get floating_status ''kmt'') (\<lambda>kmt.
                          bnd (py_div tcg (kmt - vcg_corr)) (\<lambda>h.
                            let floating_status =
                                  dict_set floating_status ''heel'' (degrees (arctan h))
                            in bnd (dict_get floating_status ''kmt'') (\<lambda>kmt.
                               let floating_status =
                                     dict_set floating_status ''gmt_solid'' (kmt - vcg)
                               in bnd (dict_get floating_status ''kmt'') (\<lambda>kmt.
                                  let floating_status =
                                        dict_set floating_status ''gmt_liquid'' (kmt - vcg_corr)
                                  in bnd (dict_get floating_status ''kml'') (\<lambda>kml.
                                       Inr (dict_set floating_status ''gml'' (kml - vcg))))))))))))))"

section \<open>Stability criteria (criteria.py)\<close>

subsection \<open>get\_plot\_area\<close>

text \<open>
  \<^verbatim>\<open>np.argmax(x >= v)\<close> is the position of the first entry that is at least \<open>v\<close>, and 0
  when there is none; on an empty array it raises. \<^verbatim>\<open>trapezoid(y, x)\<close> sums the
  trapezia between neighbouring samples. The callers pass the keys and the values of one
  dictionary, two lists of one length; for slices of different lengths numpy raises or
  broadcasts, and the model raises.
\<close>

definition argmax_ge :: "real list \<Rightarrow> real \<Rightarrow> error + int" where
  "argmax_ge x v =
     (if x = [] then Inl ValueError
      else let n = length (takeWhile (\<lambda>a. \<not> a \<ge> v) x)
           in Inr (if n = length x then 0 else int n))"

fun trapezia :: "real list \<Rightarrow> real list \<Rightarrow> real" where
  "trapezia (y0 # y1 # ys) (x0 # x1 # xs) =
     (x1 - x0) * (y1 + y0) / 2 + trapezia (y1 # ys) (x1 # xs)"
| "trapezia ys xs = 0"

definition trapezoid :: "real list \<Rightarrow> real list \<Rightarrow> error + real" where
  "trapezoid y x = (if length y \<noteq> length x then Inl ValueError else Inr (trapezia y x))"

text \<open>The slice \<^verbatim>\<open>v[a : b + 1]\<close> for \<open>0 \<le> a\<close> and \<open>0 \<le> b\<close>.\<close>

definition slice :: "'a list \<Rightarrow> int \<Rightarrow> int \<Rightarrow> 'a list" where
  "slice v a b = take (nat (b + 1) - nat a) (drop (nat a) v)"

definition get_plot_area :: "real list \<Rightarrow> real list \<Rightarrow> real \<Rightarrow> real option \<Rightarrow> error + real" where
  "get_plot_area x_vals y_vals start_x end_x_opt =
     bnd (case end_x_opt of None \<Rightarrow> py_last x_vals | Some e \<Rightarrow> Inr e) (\<lambda>end_x.
     bnd (argmax_ge x_vals start_x) (\<lambda>start_index.
     bnd (py_last x_vals) (\<lambda>x_last.
     bnd (if end_x \<le> x_last then argmax_ge x_vals end_x else Inr (- 1)) (\<lambda>end_index.
       if start_index \<ge> int (length x_vals) - 1 \<or> start_index \<ge> end_index then Inr 0
       else
         bnd (trapezoid (slice y_vals start_index end_index)
                (slice x_vals start_index end_index)) (\<lambda>tz.
           let area = tz * (pi / 180);
               area_in_m_rad = area * pi / 180
           in Inr (py_round area_in_m_rad 2))))))"

subsection \<open>The data blocks of criteria 1 to 3 in get\_criteria\_data\<close>

text \<open>
  One entry of the result; the field \<open>c_k\<close> is the key \<^verbatim>\<open>"k"\<close>. The limit of a
  criterion is the default unless \<^verbatim>\<open>criteria_limits\<close> has an entry for it, whose key
  \<^verbatim>\<open>"required"\<close> is read then. The GZ curve is the list of its pairs (angle, GZ), in the
  order of the dictionary, the angles already read as numbers. The three blocks differ only
  in the identifier, the description, the default limit and the two angles passed to
  \<open>get_plot_area\<close>, so they are three instances of one definition; the degree signs
  of the descriptions are left out.
\<close>

record criterion =
  c_description :: string
  c_required :: real
  c_unit :: string
  c_type :: string
  c_attained :: real
  c_status :: string

definition required_limit :: "(string \<times> (string \<times> real) list) list \<Rightarrow> string \<Rightarrow> real \<Rightarrow> error + real" where
  "required_limit criteria_limits cr_no required =
     (case map_of criteria_limits cr_no of
        None \<Rightarrow> Inr required
      | Some limit \<Rightarrow> dict_get limit ''required'')"

definition area_criterion ::
  "(real \<times> real) list \<Rightarrow> (string \<times> (string \<times> real) list) list \<Rightarrow> string \<Rightarrow> string \<Rightarrow> real \<Rightarrow> real
     \<Rightarrow> real \<Rightarrow> error + criterion" where
  "area_criterion gz_curve criteria_limits cr_no description required0 start_x end_x =
     (let x = map fst gz_curve;
          y = map snd gz_curve
      in bnd (required_limit criteria_limits cr_no required0) (\<lambda>required.
         bnd (get_plot_area x y start_x (Some end_x)) (\<lambda>attained.
           Inr \<lparr>c_description = description, c_required = required, c_unit = ''m rad'',
                c_type = ''stability criteria'', c_attained = attained,
                c_status = (if attained \<ge> required then ''PASS'' else ''FAIL'')\<rparr>)))"

definition cr_1 :: "(real \<times> real) list \<Rightarrow> (string \<times> (string \<times> real) list) list \<Rightarrow> error + criterion" where
  "cr_1 gz_curve criteria_limits =
     area_criterion gz_curve criteria_limits ''cr_1'' ''Area under gz curve from 0 to 30''
       (55 / 1000) 0 30"



subsection \<open>calculate\_range\_of\_stability\<close>

text \<open>
  \<^verbatim>\<open>interp1d\<close> rejects two lists of different lengths, and an empty one. The root finder
  \<^verbatim>\<open>root_scalar(..., method="brentq")\<close> is a parameter: called on the two lists and a
  bracket, it gives the root it converged to, or nothing.
\<close>

type_synonym root_finder = "real list \<Rightarrow> real list \<Rightarrow> real \<Rightarrow> real \<Rightarrow> real option"

definition zero_crossings :: "root_finder \<Rightarrow> real list \<Rightarrow> real list \<Rightarrow> real list" where
  "zero_crossings brentq x y =
     concat (map (\<lambda>i. if y ! i * y ! (i + 1) < 0
                       then (case brentq x y (x ! i) (x ! (i + 1)) of
                               None \<Rightarrow> [] | Some r \<Rightarrow> [r])
                       else [])
               [0..<length x - 1])"

definition calculate_range_of_stability ::
  "root_finder \<Rightarrow> real list \<Rightarrow> real list \<Rightarrow> error + (real \<times> real)" where
  "calculate_range_of_stability brentq x y =
     (if length x \<noteq> length y \<or> x = [] then Inl ValueError
      else
        let roots = zero_crossings brentq x y
        in bnd (if list_all (\<lambda>val. val \<le> 0) y then Inr (0, 0)
                else if list_all (\<lambda>val. val \<ge> 0) y then Inr (hd x, last x)
                else if hd y \<ge> 0 then Inr (hd x, if roots \<noteq> [] then hd roots else last x)
                else Inr (if roots \<noteq> [] then hd roots else 0,
                          if length roots > 1 then roots ! 1 else last x))
             (\<lambda>(angle_of_loll, second_intercept).
                Inr (second_intercept - angle_of_loll, angle_of_loll)))"

text \<open>
  An instance of the root finder for strictly increasing angles: between two neighbouring
  samples of opposite sign the linear interpolant is the straight line through them, and
  its zero is what the search converges to.
\<close>

definition segment_root :: root_finder where
  "segment_root x y a b =
     (case (map_of (zip x y) a, map_of (zip x y) b) of
        (Some ya, Some yb) \<Rightarrow> if ya = yb then None else Some (a - ya * (b - a) / (yb - ya))
      | _ \<Rightarrow> None)"

section \<open>Longitudinal strength (ls\_plot.py)\<close>

subsection \<open>get\_buoyancy\_distribution\<close>







text \<open>
  An instance of the interpolator for grids that do not depend on the weight and are affine
  in the trim: there linear interpolation, and linear extrapolation beyond the grid, give
  the affine function itself, which the first two rows determine. With it, an example
  table of eight sheets, listed out of order, in which the draft, LCB and KMT vary with
  the trim and MCT is a constant to be chosen, and the interpolators it gives.
\<close>

definition rgi_affine_in_trim :: grid_interpolator where
  "rgi_affine_in_trim trim_vals weight_vals grid =
     (if length trim_vals < 2 \<or> length grid < 2 \<or> grid ! 0 = [] \<or> grid ! 1 = []
      then Inl ValueError
      else Inr (\<lambda>t w. hd (grid ! 0)
                  + (t - trim_vals ! 0) * (hd (grid ! 1) - hd (grid ! 0))
                      / (trim_vals ! 1 - trim_vals ! 0)))"

definition affine_sheet :: "(string \<times> real \<times> real) list \<Rightarrow> real \<Rightarrow> dataframe" where
  "affine_sheet coeffs t =
     (''weight'', [100, 200]) # map (\<lambda>(k, a, b). (k, [a + b * t, a + b * t])) coeffs"

definition affine_hydrostatics :: "(string \<times> real \<times> real) list \<Rightarrow> (real \<times> dataframe) list" where
  "affine_hydrostatics coeffs = map (\<lambda>t. (t, affine_sheet coeffs t)) [0, 1, 2, 3, - 4, - 3, - 2, - 1]"

definition example_coeffs :: "real \<Rightarrow> (string \<times> real \<times> real) list" where
  "example_coeffs mct0 =
     [(''draft'', 5, 1 / 10), (''lcb'', 50, 1), (''vcb'', 3, 0), (''lcf'', 48, 0),
      (''kml'', 120, 0), (''kmt'', 8, 2), (''mct'', mct0, 0), (''tpc'', 20, 0)]"

definition example_interp :: "real \<Rightarrow> (real \<Rightarrow> real \<Rightarrow> real) list" where
  "example_interp mct0 =
     [\<lambda>t w. 5 + t / 10, \<lambda>t w. 50 + t, \<lambda>t w. 3, \<lambda>t w. 48, \<lambda>t w. 120, \<lambda>t w. 8 + 2 * t,
      \<lambda>t w. mct0, \<lambda>t w. 20]"



section \<open>Properties of the crane calculations\<close>

text \<open>
  Claim C5, as the code has it. The three overload messages are chosen from the two
  utilisation ratios alone, in the order both, capacity, radius, whatever the boom length
  and the outreach are. Only when neither ratio exceeds 1 is the angle computed: for a boom
  length other than zero and a ratio outreach / boom length within \<open>[-1, 1]\<close> the result is
  the message about the minimum outreach when the angle \<open>acos (outreach / boom length)\<close>, in
  degrees, exceeds 75, and the angle in degrees otherwise.
\<close>

theorem boom_angle_precedence:
  "(Ucl > 1 \<and> Ucr > 1 \<longrightarrow>
      calculate_boom_angle boom_length required_outreach Ucl Ucr
        = Inr (Message ''Lift is beyond crane capacity and max radius!''))
   \<and> (Ucl > 1 \<and> \<not> Ucr > 1 \<longrightarrow>
      calculate_boom_angle boom_length required_outreach Ucl Ucr
        = Inr (Message ''Lift is beyond crane capacity!''))
   \<and> (\<not> Ucl > 1 \<and> Ucr > 1 \<longrightarrow>
      calculate_boom_angle boom_length required_outreach Ucl Ucr
        = Inr (Message ''Lift is beyond max radius!''))
   \<and> (\<not> Ucl > 1 \<and> \<not> Ucr > 1 \<and> boom_length \<noteq> 0
        \<and> - 1 \<le> required_outreach / boom_length \<and> required_outreach / boom_length \<le> 1 \<longrightarrow>
      calculate_boom_angle boom_length required_outreach Ucl Ucr
        = (if arccos (required_outreach / boom_length) * 180 / pi > 75
           then Inr (Message ''Cargo inside minimum outreach!'')
           else Inr (Angle (arccos (required_outreach / boom_length) * 180 / pi))))"
  by (simp add: calculate_boom_angle_def bnd_def py_div_def py_acos_def degrees_def Let_def)

text \<open>
  The four branches at concrete lifts: the three utilisation pairs of the specification,
  a boom of 10 m reaching 5 m (60 degrees) and the same boom with the cargo at its foot
  (90 degrees, inside the minimum outreach).
\<close>

theorem boom_angle_precedence_witness:
  "calculate_boom_angle 10 5 (12/10) (13/10)
     = Inr (Message ''Lift is beyond crane capacity and max radius!'')
   \<and> calculate_boom_angle 10 5 (12/10) (5/10) = Inr (Message ''Lift is beyond crane capacity!'')
   \<and> calculate_boom_angle 10 5 (5/10) (13/10) = Inr (Message ''Lift is beyond max radius!'')
   \<and> calculate_boom_angle 10 5 (5/10) (5/10) = Inr (Angle 60)
   \<and> calculate_boom_angle 10 0 (5/10) (5/10) = Inr (Message ''Cargo inside minimum outreach!'')"
  using boom_angle_precedence [of "12/10" "13/10" 10 5]
        boom_angle_precedence [of "12/10" "5/10" 10 5]
        boom_angle_precedence [of "5/10" "13/10" 10 5]
        boom_angle_precedence [of "5/10" "5/10" 10 5]
        boom_angle_precedence [of "5/10" "5/10" 10 0]
  by simp

text \<open>
  Claim C5 as the specification words it promises one of the five outcomes for every boom
  length and outreach. With neither ratio above 1, a boom of 10 m and an outreach of 20 m,
  \<^verbatim>\<open>math.acos(2.0)\<close> raises instead.
\<close>

theorem boom_angle_outside_domain:
  "calculate_boom_angle 10 20 (5/10) (5/10) = Inl ValueError"
  by (simp add: calculate_boom_angle_def bnd_def py_div_def py_acos_def)

section \<open>Properties of the weight aggregation\<close>

text \<open>
  Tank totals: whenever the interpolated tank weights sum to zero, the five totals are
  all zero, whatever the single weights are.
\<close>

lemma tank_totals_zero_sum:
  "map_err (\<lambda>tank. dict_get (tank_props tank) ''weight'') tank_vals = Inr ws
   \<Longrightarrow> sum_list ws = 0 \<Longrightarrow> tank_totals tank_vals = Inr (0, 0, 0, 0, 0)"
  by (simp add: tank_totals_def bnd_def)

text \<open>
  Fixed weights: when every item weighs 0 and has its three centres, the totals are all
  zero.
\<close>

lemma fixed_weight_loop_zero_weights:
  assumes "\<And>fw. fw \<in> set weight_data \<Longrightarrow>
             dict_get fw ''weight'' = Inr 0 \<and> \<not> isl (dict_get fw ''lcg'')
             \<and> \<not> isl (dict_get fw ''tcg'') \<and> \<not> isl (dict_get fw ''vcg'')"
  shows "fixed_weight_loop weight_data acc = Inr acc"
  using assms
proof (induction weight_data arbitrary: acc)
  case Nil
  then show ?case by simp
next
  case (Cons fw rest)
  obtain w l t v where acc: "acc = (w, l, t, v)" by (cases acc) auto
  from Cons.prems [of fw] obtain a b c where
    "dict_get fw ''weight'' = Inr 0" "dict_get fw ''lcg'' = Inr a" "dict_get fw ''tcg'' = Inr b"
    "dict_get fw ''vcg'' = Inr c"
    by (auto simp: isl_def) (metis sum.exhaust_sel)
  then show ?case using Cons.IH [of acc] Cons.prems by (simp add: acc bnd_def)
qed

lemma get_fixed_weight_zero_weights:
  assumes "\<And>fw. fw \<in> set weight_data \<Longrightarrow>
             dict_get fw ''weight'' = Inr 0 \<and> \<not> isl (dict_get fw ''lcg'')
             \<and> \<not> isl (dict_get fw ''tcg'') \<and> \<not> isl (dict_get fw ''vcg'')"
  shows "get_fixed_weight weight_data = Inr (0, 0, 0, 0)"
  using fixed_weight_loop_zero_weights [OF assms, of weight_data "(0, 0, 0, 0)"]
  by (simp add: get_fixed_weight_def bnd_def py_round_def)

text \<open>
  Claim C2 at two fixed weights that cancel, 1 t at LCG 2 and \<open>-1\<close> t at LCG 5. The total
  weight is 0, so the division is skipped, and the function returns the sum of the
  moments, \<open>-3\<close>, as the LCG: not 0, as the claim has it and as the tank totals do.
\<close>

theorem get_fixed_weight_cancelling_weights:
  "get_fixed_weight
     [[(''weight'', 1), (''lcg'', 2), (''tcg'', 0), (''vcg'', 0)],
      [(''weight'', - 1), (''lcg'', 5), (''tcg'', 0), (''vcg'', 0)]]
   = Inr (0, - 3, 0, 0)"
  by (simp add: get_fixed_weight_def bnd_def dict_get_def py_round_def)

section \<open>Properties of the stability criteria\<close>


lemma py_round_below_half_cent: "0 \<le> v \<Longrightarrow> v * 100 < 1 / 2 \<Longrightarrow> py_round v 2 = 0"
proof -
  assume a: "0 \<le> v" "v * 100 < 1 / 2"
  have f: "\<lfloor>v * 100\<rfloor> = 0" using a by (simp add: floor_eq_iff)
  show ?thesis using a f by (simp add: py_round_def Let_def)
qed

lemma pi_ge_three: "3 \<le> pi"
proof -
  have "sin (pi / 6) \<le> pi / 6" by (rule sin_x_le_x) simp
  then show ?thesis by (simp add: sin_30)
qed

lemma pi_squared_bounds: "9 \<le> pi * pi" "pi * pi < 16"
proof -
  have "3 * 3 \<le> pi * pi" using pi_ge_three by (intro mult_mono) simp_all
  then show "9 \<le> pi * pi" by simp
  have "pi * pi < 4 * 4" using pi_less_4 pi_gt_zero by (intro mult_strict_mono) simp_all
  then show "pi * pi < 16" by simp
qed

lemma example_area_bounds:
  "1 / 1000 < 38 / 10 * (pi / 180) * pi / 180" "38 / 10 * (pi / 180) * pi / 180 < 2 / 1000"
  using pi_squared_bounds by (simp_all add: field_simps)

lemma get_plot_area_trapezoid:
  assumes "argmax_ge x s = Inr si" and "x \<noteq> []" and "e \<le> last x"
    and "argmax_ge x e = Inr ei" and "si < int (length x) - 1" and "si < ei"
    and "trapezoid (slice y si ei) (slice x si ei) = Inr tz"
  shows "get_plot_area x y s (Some e) = Inr (py_round (tz * (pi / 180) * pi / 180) 2)"
  using assms by (simp add: get_plot_area_def bnd_def py_last_def Let_def)

lemma py_round_converted_area:
  assumes "0 \<le> a" and "a \<le> 10"
  shows "py_round (a * (pi / 180) * pi / 180) 2 = 0"
proof -
  have "a * (pi * pi) \<le> 10 * 16"
    using assms pi_squared_bounds by (intro mult_mono) simp_all
  then have "a * (pi / 180) * pi / 180 * 100 < 1 / 2" by (simp add: field_simps)
  moreover have "0 \<le> a * (pi / 180) * pi / 180" using assms by simp
  ultimately show ?thesis by (intro py_round_below_half_cent)
qed





lemma example_trapezia: "trapezia [0, 1 / 10, 18 / 100, 2 / 10] [0, 10, 20, 30] = 38 / 10"
  by simp

lemma example_rounding: "py_round (38 / 10 * (pi / 180) * pi / 180) 2 = 0"
  by (rule py_round_converted_area) simp_all

lemma example_curve_area_0_to_30:
  "get_plot_area [0, 10, 20, 30] [0, 1 / 10, 18 / 100, 2 / 10] 0 (Some 30) = Inr 0"
proof -
  have "get_plot_area [0, 10, 20, 30] [0, 1 / 10, 18 / 100, 2 / 10] 0 (Some 30)
          = Inr (py_round (38 / 10 * (pi / 180) * pi / 180) 2)"
    by (rule get_plot_area_trapezoid [where si = 0 and ei = 3])
       (simp_all add: argmax_ge_def trapezoid_def slice_def)
  then show ?thesis by (simp only: example_rounding)
qed

lemma example_cr_1_entry:
  "cr_1 [(0, 0), (10, 1 / 10), (20, 18 / 100), (30, 2 / 10)] []
     = Inr \<lparr>c_description = ''Area under gz curve from 0 to 30'', c_required = 55 / 1000,
            c_unit = ''m rad'', c_type = ''stability criteria'', c_attained = 0,
            c_status = ''FAIL''\<rparr>"
  using example_curve_area_0_to_30
  by (simp add: cr_1_def area_criterion_def required_limit_def bnd_def)

text \<open>
  Claim C4, as the code has it. On the curve of the example and with the default limit
  0.055, criterion 1 attains the trapezoidal area over 0 to 30 degrees, 3.8, times
  \<open>\<pi>/180\<close> twice, rounded to two decimals. That is 0, and the status is FAIL.
\<close>

theorem cr_1_example_rounded_area:
  "cr_1 [(0, 0), (10, 1 / 10), (20, 18 / 100), (30, 2 / 10)] []
     = Inr \<lparr>c_description = ''Area under gz curve from 0 to 30'', c_required = 55 / 1000,
            c_unit = ''m rad'', c_type = ''stability criteria'',
            c_attained =
              py_round (trapezia [0, 1 / 10, 18 / 100, 2 / 10] [0, 10, 20, 30] * (pi / 180)
                          * pi / 180) 2,
            c_status = ''FAIL''\<rparr>
   \<and> py_round (trapezia [0, 1 / 10, 18 / 100, 2 / 10] [0, 10, 20, 30] * (pi / 180) * pi / 180) 2
       = 0"
  by (simp only: example_trapezia example_rounding example_cr_1_entry)

text \<open>
  Claim C4 as the specification words it: the attained value is the doubly converted area
  itself, about 0.025. The block reports 0, while that area lies between 0.001 and 0.002.
\<close>

theorem cr_1_example_not_the_area:
  "map_sum id c_attained (cr_1 [(0, 0), (10, 1 / 10), (20, 18 / 100), (30, 2 / 10)] []) = Inr 0
   \<and> 1 / 1000 < trapezia [0, 1 / 10, 18 / 100, 2 / 10] [0, 10, 20, 30] * (pi / 180) * pi / 180
   \<and> trapezia [0, 1 / 10, 18 / 100, 2 / 10] [0, 10, 20, 30] * (pi / 180) * pi / 180 < 2 / 1000"
proof -
  have "map_sum id c_attained (cr_1 [(0, 0), (10, 1 / 10), (20, 18 / 100), (30, 2 / 10)] [])
          = Inr 0"
    unfolding example_cr_1_entry by simp
  then show ?thesis
    using example_area_bounds by (simp only: example_trapezia)
qed

text \<open>
  The range of stability where no sample is 0: for angles starting at 0, samples that are
  positive up to some index and negative after it, and a root \<open>r\<close> found in the bracket
  between the two, the angle of loll is 0 and the range is \<open>r\<close>.
\<close>

lemma concat_map_empty: "(\<And>i. i \<in> set xs \<Longrightarrow> f i = []) \<Longrightarrow> concat (map f xs) = []"
  by (induction xs) simp_all

lemma zero_crossings_single:
  assumes "length x = length y" and "k + 1 < length y"
    and pos: "\<And>i. i \<le> k \<Longrightarrow> 0 < y ! i"
    and neg: "\<And>i. k < i \<Longrightarrow> i < length y \<Longrightarrow> y ! i < 0"
    and "brentq x y (x ! k) (x ! (k + 1)) = Some r"
  shows "zero_crossings brentq x y = [r]"
proof -
  let ?f = "\<lambda>i. if y ! i * y ! (i + 1) < 0
                 then (case brentq x y (x ! i) (x ! (i + 1)) of None \<Rightarrow> [] | Some r \<Rightarrow> [r])
                 else []"
  have split: "[0..<length x - 1] = [0..<k] @ [k] @ [k + 1..<length x - 1]"
  proof -
    have "[0..<k + (length x - 1 - k)] = [0..<k] @ [k..<k + (length x - 1 - k)]"
      by (rule upt_add_eq_append) simp
    moreover have "k + (length x - 1 - k) = length x - 1" using assms(1,2) by simp
    ultimately have "[0..<length x - 1] = [0..<k] @ [k..<length x - 1]" by simp
    moreover have "[k..<length x - 1] = k # [k + 1..<length x - 1]"
      using assms(1,2) by (simp add: upt_conv_Cons)
    ultimately show ?thesis by simp
  qed
  have before: "concat (map ?f [0..<k]) = []"
  proof (rule concat_map_empty)
    fix i assume "i \<in> set [0..<k]"
    then have "0 < y ! i" "0 < y ! (i + 1)" using pos [of i] pos [of "i + 1"] by simp_all
    then have "0 < y ! i * y ! (i + 1)" by simp
    then show "?f i = []" by simp
  qed
  have after: "concat (map ?f [k + 1..<length x - 1]) = []"
  proof (rule concat_map_empty)
    fix i assume "i \<in> set [k + 1..<length x - 1]"
    then have i: "k < i" "i + 1 < length y" using assms(1) by auto
    then have "y ! i < 0" "y ! (i + 1) < 0"
      using neg [of i] neg [of "i + 1"] by simp_all
    then have "0 < y ! i * y ! (i + 1)" by (simp add: mult_neg_neg)
    then show "?f i = []" by simp
  qed
  have "y ! k * y ! (k + 1) < 0"
    using pos [of k] neg [of "k + 1"] assms(2) by (simp add: mult_pos_neg)
  then have at: "?f k = [r]" using assms(5) by simp
  have "zero_crossings brentq x y = concat (map ?f ([0..<k] @ [k] @ [k + 1..<length x - 1]))"
    unfolding zero_crossings_def split ..
  also have "\<dots> = concat (map ?f [0..<k]) @ ?f k @ concat (map ?f [k + 1..<length x - 1])"
    by (simp only: map_append concat_append list.map concat.simps append_Nil2)
  also have "\<dots> = [r]"
    by (simp only: before after at append_Nil append_Nil2)
  finally show ?thesis .
qed

lemma range_of_stability_strict_crossing:
  assumes "length x = length y" and "k + 1 < length y" and "hd x = 0"
    and pos: "\<And>i. i \<le> k \<Longrightarrow> 0 < y ! i"
    and neg: "\<And>i. k < i \<Longrightarrow> i < length y \<Longrightarrow> y ! i < 0"
    and "brentq x y (x ! k) (x ! (k + 1)) = Some r"
  shows "calculate_range_of_stability brentq x y = Inr (r, 0)"
proof -
  have ne: "y \<noteq> []" "x \<noteq> []" using assms(1,2) by auto
  have z: "zero_crossings brentq x y = [r]"
    using assms(1,2) pos neg assms(6) by (rule zero_crossings_single)
  have h: "0 < hd y" using pos [of 0] ne by (simp add: hd_conv_nth)
  then have a: "\<not> list_all (\<lambda>val. val \<le> 0) y" using ne by (cases y) auto
  have "y ! (k + 1) \<in> set y" using assms(2) by simp
  moreover have "y ! (k + 1) < 0" using neg [of "k + 1"] assms(2) by simp
  ultimately have b: "\<not> list_all (\<lambda>val. val \<ge> 0) y"
    unfolding list_all_iff by (metis not_le)
  show ?thesis
    using assms(1,3) ne z a b h by (simp add: calculate_range_of_stability_def bnd_def)
qed

text \<open>
  Claim C6 at a curve that is positive at 0 degrees, passes through exactly 0 at
  10 degrees and is negative from 20 degrees on. No product of neighbouring samples is
  negative, so no root is looked for, whatever the root finder is, and the range of
  stability is reported as 40 degrees, the last angle, instead of 10.
\<close>

theorem range_of_stability_zero_sample:
  "calculate_range_of_stability brentq [0, 10, 20, 30, 40] [1 / 2, 0, - 1 / 2, - 1, - 3 / 2]
     = Inr (40, 0)"
  by (simp add: calculate_range_of_stability_def zero_crossings_def bnd_def upt_rec)

text \<open>
  The same curve with the root finder of the linear interpolant, and, for comparison, a
  curve whose crossing lies between two samples, at 15 degrees, where the range ends at
  the crossing.
\<close>

theorem range_of_stability_zero_sample_witness:
  "calculate_range_of_stability segment_root [0, 10, 20, 30, 40]
     [1 / 2, 0, - 1 / 2, - 1, - 3 / 2] = Inr (40, 0)
   \<and> calculate_range_of_stability segment_root [0, 10, 20, 30, 40]
     [1, 1 / 2, - 1 / 2, - 1, - 3 / 2] = Inr (15, 0)"
proof -
  have "calculate_range_of_stability segment_root [0, 10, 20, 30, 40]
          [1, 1 / 2, - 1 / 2, - 1, - 3 / 2] = Inr (15, 0)"
    by (simp add: calculate_range_of_stability_def zero_crossings_def bnd_def upt_rec
          segment_root_def)
  then show ?thesis
    using range_of_stability_zero_sample [of segment_root] by simp
qed

section \<open>Properties of the buoyancy distribution\<close>





section \<open>Properties of the equilibrium solver\<close>

lemma mct_present:
  "dict_get (evaluate_params fs t w) ''mct'' = Inr m
   \<Longrightarrow> \<exists>f0 f1 f2 f3 f4 f5 f6 r. fs = f0 # f1 # f2 # f3 # f4 # f5 # f6 # r \<and> m = f6 t w"
  by (auto simp: evaluate_params_def params_def dict_get_def zip_Cons1
           split: list.splits option.splits)

lemma map_of_dict_set: "map_of (dict_set d k v) = (map_of d)(k \<mapsto> v)"
  by (induction d) (auto simp: fun_eq_iff)

lemma dict_get_dict_set:
  "dict_get (dict_set d k v) k' = (if k' = k then Inr v else dict_get d k')"
  by (simp add: dict_get_def map_of_dict_set)

lemma evaluate_params_seven:
  "evaluate_params (f0 # f1 # f2 # f3 # f4 # f5 # f6 # r) t w =
     (''draft'', f0 t w) # (''lcb'', f1 t w) # (''vcb'', f2 t w) # (''lcf'', f3 t w)
       # (''kml'', f4 t w) # (''kmt'', f5 t w) # (''mct'', f6 t w)
       # (case r of [] \<Rightarrow> [] | f7 # _ \<Rightarrow> [(''tpc'', f7 t w)])"
  by (simp add: evaluate_params_def params_def split: list.splits)

lemma dict_get_seven:
  "dict_get ((''draft'', a) # (''lcb'', b) # (''vcb'', c) # (''lcf'', d) # (''kml'', e)
       # (''kmt'', f) # (''mct'', g) # r) ''draft'' = Inr a"
  "dict_get ((''draft'', a) # (''lcb'', b) # (''vcb'', c) # (''lcf'', d) # (''kml'', e)
       # (''kmt'', f) # (''mct'', g) # r) ''lcb'' = Inr b"
  "dict_get ((''draft'', a) # (''lcb'', b) # (''vcb'', c) # (''lcf'', d) # (''kml'', e)
       # (''kmt'', f) # (''mct'', g) # r) ''kml'' = Inr e"
  "dict_get ((''draft'', a) # (''lcb'', b) # (''vcb'', c) # (''lcf'', d) # (''kml'', e)
       # (''kmt'', f) # (''mct'', g) # r) ''kmt'' = Inr f"
  "dict_get ((''draft'', a) # (''lcb'', b) # (''vcb'', c) # (''lcf'', d) # (''kml'', e)
       # (''kmt'', f) # (''mct'', g) # r) ''mct'' = Inr g"
  by (simp_all add: dict_get_def)

lemma optimize_trim_unfolded:
  assumes "list_interp_func rgi hs = Inr (f0 # f1 # f2 # f3 # f4 # f5 # f6 # r)"
  shows "optimize_trim rgi hs weight lcg tcg vcg vcg_corr length' =
     (if f6 0 weight * 100 = 0 then Inl ZeroDivisionError
      else let tm = weight * (f1 0 weight - lcg) / (f6 0 weight * 100);
               st = evaluate_params (f0 # f1 # f2 # f3 # f4 # f5 # f6 # r) tm weight
           in if length' = 0 then Inl ZeroDivisionError
              else if f5 tm weight - vcg_corr = 0 then Inl ZeroDivisionError
              else Inr (dict_set (dict_set (dict_set (dict_set (dict_set (dict_set (dict_set st
                     ''draft_aft'' (f0 tm weight + tm / 2))
                     ''draft_fwd'' (f0 tm weight - tm / 2))
                     ''trim'' (degrees (arctan (tm / length'))))
                     ''heel'' (degrees (arctan (tcg / (f5 tm weight - vcg_corr)))))
                     ''gmt_solid'' (f5 tm weight - vcg))
                     ''gmt_liquid'' (f5 tm weight - vcg_corr))
                     ''gml'' (f4 tm weight - vcg)))"
  using assms
  by (simp add: optimize_trim_def bnd_def py_div_def Let_def evaluate_params_seven dict_get_seven
        dict_get_dict_set del: dict_set.simps)

lemma map_of_after_derived_keys:
  "k \<in> set params \<Longrightarrow>
   map_of (dict_set (dict_set (dict_set (dict_set (dict_set (dict_set (dict_set st
                     ''draft_aft'' a) ''draft_fwd'' b) ''trim'' c) ''heel'' d)
                     ''gmt_solid'' e) ''gmt_liquid'' f) ''gml'' g) k = map_of st k"
  by (auto simp: map_of_dict_set params_def)

lemma example_interp_built: "list_interp_func rgi_affine_in_trim (affine_hydrostatics (example_coeffs m))
   = Inr (example_interp m)"
  by (simp add: list_interp_func_def affine_hydrostatics_def example_coeffs_def affine_sheet_def
      params_def bnd_def dict_get_def rgi_affine_in_trim_def example_interp_def fun_eq_iff 
      field_simps)

lemma example_first_pass:
  "dict_get (evaluate_params (example_interp m) 0 w) ''lcb'' = Inr 50"
  "dict_get (evaluate_params (example_interp m) 0 w) ''mct'' = Inr m"
  by (simp_all add: example_interp_def evaluate_params_def params_def dict_get_def)

lemma example_second_pass_kmt:
  "dict_get (evaluate_params (example_interp m) t w) ''kmt'' = Inr (8 + 2 * t)"
  by (simp_all add: example_interp_def evaluate_params_def params_def dict_get_def)

text \<open>
  Claim C1, as the code has it. Let the interpolators be built, let the first pass, at
  trim 0, give LCB and MCT with MCT other than 0, let the vessel length be other than 0,
  and let the KMT of the second pass differ from the corrected VCG. Then the solver
  returns a status in which every hydrostatic parameter is the value of the second pass,
  taken at \<open>trim_meters = weight * (LCB - LCG) / (MCT * 100)\<close>, and the derived keys are
  the draft plus and minus \<open>trim_meters / 2\<close>, the trim \<open>atan (trim_meters / length)\<close> and the heel
  \<open>atan (TCG / (KMT - VCG_corrected))\<close> in degrees, \<open>KMT - VCG\<close>, \<open>KMT - VCG_corrected\<close>
  and \<open>KML - VCG\<close>.
\<close>

theorem optimize_trim_two_passes:
  assumes "list_interp_func rgi hs = Inr fs"
    and "dict_get (evaluate_params fs 0 weight) ''lcb'' = Inr lcb"
    and "dict_get (evaluate_params fs 0 weight) ''mct'' = Inr mct"
    and "mct \<noteq> 0" and "length' \<noteq> 0"
    and "trim_meters = weight * (lcb - lcg) / (mct * 100)"
    and "dict_get (evaluate_params fs trim_meters weight) ''kmt'' \<noteq> Inr vcg_corr"
  shows "\<exists>st draft kml kmt.
       optimize_trim rgi hs weight lcg tcg vcg vcg_corr length' = Inr st
     \<and> (\<forall>param \<in> set params.
           map_of st param = map_of (evaluate_params fs trim_meters weight) param)
     \<and> map_of st ''draft'' = Some draft \<and> map_of st ''kml'' = Some kml
     \<and> map_of st ''kmt'' = Some kmt
     \<and> map_of st ''draft_aft'' = Some (draft + trim_meters / 2)
     \<and> map_of st ''draft_fwd'' = Some (draft - trim_meters / 2)
     \<and> map_of st ''trim'' = Some (arctan (trim_meters / length') * 180 / pi)
     \<and> map_of st ''heel'' = Some (arctan (tcg / (kmt - vcg_corr)) * 180 / pi)
     \<and> map_of st ''gmt_solid'' = Some (kmt - vcg)
     \<and> map_of st ''gmt_liquid'' = Some (kmt - vcg_corr)
     \<and> map_of st ''gml'' = Some (kml - vcg)"
proof -
  from mct_present [OF assms(3)] obtain f0 f1 f2 f3 f4 f5 f6 r
    where fs: "fs = f0 # f1 # f2 # f3 # f4 # f5 # f6 # r" and m: "mct = f6 0 weight"
    by blast
  have l: "lcb = f1 0 weight"
    using assms(2) by (simp add: fs evaluate_params_seven dict_get_seven)
  have k: "f5 trim_meters weight \<noteq> vcg_corr"
    using assms(7) by (simp add: fs evaluate_params_seven dict_get_seven)
  let ?st = "evaluate_params fs trim_meters weight"
  let ?res = "dict_set (dict_set (dict_set (dict_set (dict_set (dict_set (dict_set ?st
                     ''draft_aft'' (f0 trim_meters weight + trim_meters / 2))
                     ''draft_fwd'' (f0 trim_meters weight - trim_meters / 2))
                     ''trim'' (degrees (arctan (trim_meters / length'))))
                     ''heel'' (degrees (arctan (tcg / (f5 trim_meters weight - vcg_corr)))))
                     ''gmt_solid'' (f5 trim_meters weight - vcg))
                     ''gmt_liquid'' (f5 trim_meters weight - vcg_corr))
                     ''gml'' (f4 trim_meters weight - vcg)"
  have res: "optimize_trim rgi hs weight lcg tcg vcg vcg_corr length' = Inr ?res"
    using assms(1,4,5,6) k
    by (simp add: optimize_trim_unfolded [of rgi hs f0 f1 f2 f3 f4 f5 f6 r] fs m l Let_def
          del: dict_set.simps)
  have p: "\<forall>param \<in> set params. map_of ?res param = map_of ?st param"
    by (simp add: map_of_after_derived_keys)
  have d: "map_of ?st ''draft'' = Some (f0 trim_meters weight)"
       "map_of ?st ''kml'' = Some (f4 trim_meters weight)"
       "map_of ?st ''kmt'' = Some (f5 trim_meters weight)"
    by (simp_all add: fs evaluate_params_seven)
  have d': "map_of ?res ''draft'' = Some (f0 trim_meters weight)"
       "map_of ?res ''kml'' = Some (f4 trim_meters weight)"
       "map_of ?res ''kmt'' = Some (f5 trim_meters weight)"
    using d by (simp_all add: map_of_after_derived_keys params_def del: dict_set.simps)
  have n: "map_of ?res ''draft_aft'' = Some (f0 trim_meters weight + trim_meters / 2)"
    "map_of ?res ''draft_fwd'' = Some (f0 trim_meters weight - trim_meters / 2)"
    "map_of ?res ''trim'' = Some (arctan (trim_meters / length') * 180 / pi)"
    "map_of ?res ''heel'' = Some (arctan (tcg / (f5 trim_meters weight - vcg_corr)) * 180 / pi)"
    "map_of ?res ''gmt_solid'' = Some (f5 trim_meters weight - vcg)"
    "map_of ?res ''gmt_liquid'' = Some (f5 trim_meters weight - vcg_corr)"
    "map_of ?res ''gml'' = Some (f4 trim_meters weight - vcg)"
    by (simp_all add: map_of_dict_set degrees_def del: dict_set.simps)
  show ?thesis
    using res p d' n by blast
qed

text \<open>
  The example table with MCT 30, a weight of 150 t with LCG 49 m, TCG 1 m and VCG 6 m,
  a corrected VCG of 7.1 m and a length of 100 m: the first pass gives LCB 50 m, the trim
  correction is 0.05 m, and the second pass, at that trim, gives a draft of 5.005 m and
  a KMT of 8.1 m.
\<close>

theorem optimize_trim_two_passes_witness:
  "optimize_trim rgi_affine_in_trim (affine_hydrostatics (example_coeffs 30)) 150 49 1 6
       (71 / 10) 100
     = Inr [(''draft'', 1001 / 200), (''lcb'', 1001 / 20), (''vcb'', 3), (''lcf'', 48),
            (''kml'', 120), (''kmt'', 81 / 10), (''mct'', 30), (''tpc'', 20),
            (''draft_aft'', 503 / 100), (''draft_fwd'', 249 / 50),
            (''trim'', arctan (1 / 2000) * 180 / pi), (''heel'', 45),
            (''gmt_solid'', 21 / 10), (''gmt_liquid'', 1), (''gml'', 114)]"
proof -
  have k: "dict_get (evaluate_params (example_interp 30) (150 * (50 - 49) / (30 * 100)) 150) ''kmt''
        \<noteq> Inr (71 / 10)"
    by (simp add: example_second_pass_kmt)
  from optimize_trim_two_passes [OF example_interp_built [of 30] example_first_pass [of 30 150] _ _ refl k,
         where length' = 100 and tcg = 1 and vcg = 6]
  obtain st where "optimize_trim rgi_affine_in_trim (affine_hydrostatics (example_coeffs 30)) 150 49 1 6
       (71 / 10) 100 = Inr st" by auto
  moreover have "optimize_trim rgi_affine_in_trim (affine_hydrostatics (example_coeffs 30)) 150 49 1 6
       (71 / 10) 100
     = Inr [(''draft'', 1001 / 200), (''lcb'', 1001 / 20), (''vcb'', 3), (''lcf'', 48),
            (''kml'', 120), (''kmt'', 81 / 10), (''mct'', 30), (''tpc'', 20),
            (''draft_aft'', 503 / 100), (''draft_fwd'', 249 / 50),
            (''trim'', arctan (1 / 2000) * 180 / pi), (''heel'', 45),
            (''gmt_solid'', 21 / 10), (''gmt_liquid'', 1), (''gml'', 114)]"
    by (simp add: optimize_trim_def example_interp_built bnd_def example_first_pass py_div_def example_interp_def
         evaluate_params_def params_def dict_get_def degrees_def arctan_one Let_def)
  ultimately show ?thesis by simp
qed

text \<open>
  Claim C1 as the specification words it: a status is returned for every table. On the
  example table with an MCT column of zeros the trim correction divides by zero.
\<close>

theorem optimize_trim_zero_mct:
  "optimize_trim rgi_affine_in_trim (affine_hydrostatics (example_coeffs 0)) 200 48 0 6 5 80
     = Inl ZeroDivisionError"
  by (simp add: optimize_trim_def example_interp_built bnd_def example_first_pass py_div_def)

text \<open>
  Claim C8. Whenever the first pass gives an MCT of 0, the solver fails with a division by
  zero; and whenever MCT and the length are not 0 and the KMT of the second pass equals
  the corrected VCG, it fails with a division by zero in the heel formula.
\<close>

theorem optimize_trim_unguarded_divisions:
  assumes "list_interp_func rgi hs = Inr fs"
    and "dict_get (evaluate_params fs 0 weight) ''lcb'' = Inr lcb"
    and "dict_get (evaluate_params fs 0 weight) ''mct'' = Inr mct"
  shows "(mct = 0 \<longrightarrow>
            optimize_trim rgi hs weight lcg tcg vcg vcg_corr length' = Inl ZeroDivisionError)
       \<and> (mct \<noteq> 0 \<and> length' \<noteq> 0
            \<and> dict_get (evaluate_params fs (weight * (lcb - lcg) / (mct * 100)) weight) ''kmt''
                = Inr vcg_corr \<longrightarrow>
            optimize_trim rgi hs weight lcg tcg vcg vcg_corr length' = Inl ZeroDivisionError)"
proof -
  from mct_present [OF assms(3)] obtain f0 f1 f2 f3 f4 f5 f6 r
    where fs: "fs = f0 # f1 # f2 # f3 # f4 # f5 # f6 # r" and m: "mct = f6 0 weight"
    by blast
  have l: "lcb = f1 0 weight"
    using assms(2) by (simp add: fs evaluate_params_seven dict_get_seven)
  show ?thesis
    using assms(1)
    by (simp add: optimize_trim_unfolded [of rgi hs f0 f1 f2 f3 f4 f5 f6 r] fs m l Let_def
          evaluate_params_seven dict_get_seven del: dict_set.simps)
qed

text \<open>
  Both failures are reached: on the example table with an MCT column of zeros, and on the
  example table with MCT 30 when the corrected VCG is 8.1 m, the KMT at the corrected
  trim of 0.05 m.
\<close>

theorem optimize_trim_unguarded_divisions_witness:
  "optimize_trim rgi_affine_in_trim (affine_hydrostatics (example_coeffs 0)) 150 49 1 6 7 100
     = Inl ZeroDivisionError
   \<and> optimize_trim rgi_affine_in_trim (affine_hydrostatics (example_coeffs 30)) 150 49 1 6
       (81 / 10) 100 = Inl ZeroDivisionError"
  using optimize_trim_unguarded_divisions [OF example_interp_built [of 0] example_first_pass [of 0 150],
          where lcg = 49 and tcg = 1 and vcg = 6 and vcg_corr = 7 and length' = 100]
    optimize_trim_unguarded_divisions [OF example_interp_built [of 30] example_first_pass [of 30 150],
          where lcg = 49 and tcg = 1 and vcg = 6 and vcg_corr = "81 / 10" and length' = 100]
  by (simp add: example_second_pass_kmt)

section \<open>Properties of the SWL lookup and of the crane lift\<close>

lemma index_of_member:
  "v \<in> set xs \<Longrightarrow> \<exists>i. index_of xs v = Inr i \<and> i < length xs"
  by (induction xs) (auto simp: bnd_def)









lemma ok_lookup_by_index:
  "v \<in> set xs \<Longrightarrow> length ys = length xs \<Longrightarrow> \<not> isl (bnd (index_of xs v) (py_nth ys))"
  using index_of_member [of v xs] by (auto simp: bnd_def py_nth_def)

































lemma example_boom_type: "remove_substr '' Boom'' ''Main Boom'' = ''Main''"
  by simp



end
